theory Spec2Isabelle
  imports Complex_Main "HOL-Library.Multiset"
begin

section \<open>JavaScript values and numeric built-ins\<close>

text \<open>
  JavaScript numbers are modelled as real numbers. Where a built-in yields \<open>NaN\<close> on
  real arguments (square root of a negative number, arcsine outside \<open>[-1, 1]\<close>, a
  division by zero fed to the arcsine) the model returns \<open>None\<close>.
\<close>

definition Math_sqrt :: "real \<Rightarrow> real option" where
  "Math_sqrt x = (if x < 0 then None else Some (sqrt x))"

definition Math_asin :: "real \<Rightarrow> real option" where
  "Math_asin x = (if - 1 \<le> x \<and> x \<le> 1 then Some (arcsin x) else None)"

definition Math_atan2 :: "real \<Rightarrow> real \<Rightarrow> real" where
  "Math_atan2 y x =
     (if 0 < x then arctan (y / x)
      else if x < 0 then (if 0 \<le> y then arctan (y / x) + pi else arctan (y / x) - pi)
      else if 0 < y then pi / 2
      else if y < 0 then - (pi / 2)
      else 0)"

definition Math_round :: "real \<Rightarrow> int" where
  "Math_round x = \<lfloor>x + 1 / 2\<rfloor>"

text \<open>\<open>x.toFixed(1)\<close> for \<open>x \<ge> 0\<close>, as the number the resulting text spells.\<close>

definition toFixed1 :: "real \<Rightarrow> real" where
  "toFixed1 x = of_int \<lfloor>x * 10 + 1 / 2\<rfloor> / 10"

text \<open>
  The values that reach the \<open>category\<close> parameter of the shop service: a string, a
  number, \<open>NaN\<close> or \<open>null\<close>.
\<close>

datatype jsval = JNull | JNaN | JNum real | JStr string

fun truthy :: "jsval \<Rightarrow> bool" where
  "truthy JNull = False"
| "truthy JNaN = False"
| "truthy (JNum r) = (r \<noteq> 0)"
| "truthy (JStr s) = (s \<noteq> [])"

text \<open>\<open>parseInt\<close> on the text of a decimal numeral: the integer part, truncated towards zero.\<close>

definition parseInt :: "real \<Rightarrow> jsval" where
  "parseInt r = JNum (of_int (if 0 \<le> r then \<lfloor>r\<rfloor> else \<lceil>r\<rceil>))"

text \<open>\<open>parseFloat\<close> on the text of a decimal numeral is the number it spells.\<close>

definition parseFloat :: "real \<Rightarrow> real" where
  "parseFloat r = r"

section \<open>Geospatial utilities (\<open>utils/geo.js\<close>)\<close>

definition EARTH_RADIUS :: real where
  "EARTH_RADIUS = 6371"

text \<open>The constant \<open>a\<close> of the haversine formula in \<open>haversineDistance\<close>.\<close>

definition haversine_a :: "real \<Rightarrow> real \<Rightarrow> real \<Rightarrow> real \<Rightarrow> real" where
  "haversine_a lat1 lon1 lat2 lon2 =
     (let lat1Rad = lat1 * (pi / 180);
          lon1Rad = lon1 * (pi / 180);
          lat2Rad = lat2 * (pi / 180);
          lon2Rad = lon2 * (pi / 180);
          dLat = lat2Rad - lat1Rad;
          dLon = lon2Rad - lon1Rad
      in sin (dLat / 2) * sin (dLat / 2) +
         cos lat1Rad * cos lat2Rad * sin (dLon / 2) * sin (dLon / 2))"

text \<open>Distance in kilometres; \<open>None\<close> is \<open>NaN\<close>.\<close>

definition haversineDistance :: "real \<Rightarrow> real \<Rightarrow> real \<Rightarrow> real \<Rightarrow> real option" where
  "haversineDistance lat1 lon1 lat2 lon2 =
     (let a = haversine_a lat1 lon1 lat2 lon2
      in case (Math_sqrt a, Math_sqrt (1 - a)) of
           (Some sa, Some sb) \<Rightarrow> Some (EARTH_RADIUS * (2 * Math_atan2 sa sb))
         | _ \<Rightarrow> None)"

record bbox =
  minLat :: real
  maxLat :: real
  minLon :: "real option"
  maxLon :: "real option"

text \<open>
  The longitude fields are \<open>None\<close> where the source computes \<open>NaN\<close>: the arcsine of a
  ratio outside \<open>[-1, 1]\<close>, or of a quotient by a zero cosine. Comparisons with \<open>NaN\<close>
  are false, so the two wrap-around adjustments leave a \<open>NaN\<close> as it is.
\<close>

definition calculateBoundingBox :: "real \<Rightarrow> real \<Rightarrow> real \<Rightarrow> bbox" where
  "calculateBoundingBox latitude longitude radiusInKm =
     (let lat = latitude * (pi / 180);
          lon = longitude * (pi / 180);
          angularDistance = radiusInKm / EARTH_RADIUS;
          minLat0 = lat - angularDistance;
          maxLat0 = lat + angularDistance
      in if minLat0 > - pi / 2 \<and> maxLat0 < pi / 2 then
           (let deltaLon = (if cos lat = 0 then None
                            else Math_asin (sin angularDistance / cos lat));
                minLon0 = map_option (\<lambda>d. lon - d) deltaLon;
                maxLon0 = map_option (\<lambda>d. lon + d) deltaLon;
                minLon1 = map_option (\<lambda>m. if m < - pi then m + 2 * pi else m) minLon0;
                maxLon1 = map_option (\<lambda>m. if m > pi then m - 2 * pi else m) maxLon0
            in \<lparr>minLat = minLat0 * (180 / pi), maxLat = maxLat0 * (180 / pi),
                minLon = map_option (\<lambda>m. m * (180 / pi)) minLon1,
                maxLon = map_option (\<lambda>m. m * (180 / pi)) maxLon1\<rparr>)
         else
           \<lparr>minLat = max minLat0 (- pi / 2) * (180 / pi),
            maxLat = min maxLat0 (pi / 2) * (180 / pi),
            minLon = Some (- pi * (180 / pi)),
            maxLon = Some (pi * (180 / pi))\<rparr>)"

section \<open>Shop documents and collaborators of the shop service\<close>

text \<open>
  A shop document as the shop service reads and writes it. \<open>coordinates\<close> is
  \<open>location.coordinates\<close>, longitude first; a component is \<open>None\<close> where the service
  stored \<open>undefined\<close>. \<open>operatingHours\<close> and \<open>createdAt\<close> play no part in what follows
  and are left out.
\<close>

record shop =
  shop_id :: nat
  owner :: string
  name :: string
  description :: "string option"
  address :: string
  coordinates :: "real option \<times> real option"
  category :: string
  contactPhone :: string
  whatsappNumber :: string
  bannerImage :: "string option"
  status :: string
  rejectionReason :: "string option"

text \<open>A distance between two points \<open>lat1 lon1 lat2 lon2\<close>, in metres.\<close>

type_synonym dist_fn = "real \<Rightarrow> real \<Rightarrow> real \<Rightarrow> real \<Rightarrow> real"

text \<open>
  What the service gets from outside the repository:
  the distance by which the document store evaluates and orders \<open>$near\<close>;
  \<open>geolib.getDistance\<close>; the store's equality test of a filter value against a stored
  category (it depends on the collection's schema, which is not part of the sources);
  and the object-storage upload (\<open>None\<close> when the upload fails).
\<close>

record env =
  store_distance :: dist_fn
  geolib_getDistance :: dist_fn
  category_eq :: "jsval \<Rightarrow> string \<Rightarrow> bool"
  s3_send :: "string \<Rightarrow> string \<Rightarrow> string option"

datatype error = Error string

text \<open>\<open>LocationService.calculateDistance\<close>: the value of \<open>geolib.getDistance\<close> (the source
  answers an exception inside the library with 0; the collaborator is total here).\<close>

definition calculateDistance :: "env \<Rightarrow> real \<Rightarrow> real \<Rightarrow> real \<Rightarrow> real \<Rightarrow> real" where
  "calculateDistance e lat1 lon1 lat2 lon2 = geolib_getDistance e lat1 lon1 lat2 lon2"

section \<open>Proximity search in the shop service\<close>

text \<open>The store's distance from the query point to a document; documents without a
  complete point are never matched by \<open>$near\<close>.\<close>

definition has_point :: "shop \<Rightarrow> bool" where
  "has_point s = (case coordinates s of (Some lo, Some la) \<Rightarrow> True | _ \<Rightarrow> False)"

definition shop_distance :: "env \<Rightarrow> real \<Rightarrow> real \<Rightarrow> shop \<Rightarrow> real" where
  "shop_distance e latitude longitude s =
     (case coordinates s of
        (Some lo, Some la) \<Rightarrow> store_distance e latitude longitude la lo
      | _ \<Rightarrow> 0)"

text \<open>
  \<open>Shop.find(query)\<close> for the query that \<open>findNearbyShops\<close> builds: \<open>$near\<close> with
  \<open>$maxDistance\<close>, \<open>status: 'approved'\<close> and, when given, the category. \<open>$near\<close>
  returns the matching documents nearest first; among documents at the same distance
  the order of the collection is kept.
\<close>

definition find_near :: "env \<Rightarrow> shop list \<Rightarrow> real \<Rightarrow> real \<Rightarrow> real \<Rightarrow> jsval option \<Rightarrow> shop list" where
  "find_near e shops latitude longitude maxDistance cat =
     sort_key (shop_distance e latitude longitude)
       (filter (\<lambda>s. has_point s \<and>
                     shop_distance e latitude longitude s \<le> maxDistance \<and>
                     status s = ''approved'' \<and>
                     (case cat of None \<Rightarrow> True | Some c \<Rightarrow> category_eq e c (category s)))
          shops)"

record nearby_shop =
  doc :: shop
  meters :: int
  kilometers :: real

definition with_distance :: "env \<Rightarrow> real \<Rightarrow> real \<Rightarrow> shop \<Rightarrow> nearby_shop" where
  "with_distance e latitude longitude s =
     (let distance = (case coordinates s of
                        (Some lo, Some la) \<Rightarrow> calculateDistance e latitude longitude la lo
                      | _ \<Rightarrow> 0)
      in \<lparr>doc = s, meters = Math_round distance, kilometers = toFixed1 (distance / 1000)\<rparr>)"

text \<open>
  \<open>findNearbyShops(latitude, longitude, maxDistance = 5000, category = null)\<close>.
  An argument is \<open>None\<close> when the caller passes \<open>undefined\<close>, which selects the default.
\<close>

definition findNearbyShops ::
  "env \<Rightarrow> shop list \<Rightarrow> real \<Rightarrow> real \<Rightarrow> real option \<Rightarrow> jsval option \<Rightarrow> nearby_shop list" where
  "findNearbyShops e shops latitude longitude maxDistance_arg category_arg =
     (let maxDistance = (case maxDistance_arg of None \<Rightarrow> 5000 | Some m \<Rightarrow> m);
          category = (case category_arg of None \<Rightarrow> JNull | Some c \<Rightarrow> c);
          found = find_near e shops latitude longitude maxDistance
                    (if truthy category then Some category else None)
      in map (with_distance e latitude longitude) found)"

section \<open>Proximity search in the relational shop model (\<open>models/shop.model.js\<close>)\<close>

text \<open>A row of table \<open>shops\<close>; \<open>row_status\<close> is \<open>None\<close> for SQL \<open>NULL\<close>.\<close>

record shop_row =
  row_id :: nat
  owner_id :: nat
  row_name :: string
  banner_url :: "string option"
  row_address :: string
  whatsapp :: string
  row_longitude :: real
  row_latitude :: real
  is_approved :: bool
  row_status :: "string option"

text \<open>A row of the result of \<open>Shop.findNearby\<close>.\<close>

record nearby_row =
  shop_of :: shop_row
  distance :: real
  owner_name :: "string option"

text \<open>
  What \<open>Shop.findNearby\<close> gets from the relational store:
  \<open>st_distance\<close>, the geography distance the query reports (\<open>ST_Distance\<close>);
  \<open>st_dwithin\<close>, the store's own test that two points lie within a radius of each
  other (\<open>ST_DWithin\<close>), which need not be computed from the reported distance;
  and \<open>tie_rank\<close>, the store's arrangement of rows at the same distance:
  \<open>ORDER BY distance\<close> names no second key, so among such rows the store may return
  any order, and not the same one for every set of matching rows. \<open>tie_rank rows r\<close>
  is the place the store gives row \<open>r\<close> among the matching rows \<open>rows\<close>.
\<close>

record geo_store =
  st_distance :: dist_fn
  st_dwithin :: "real \<Rightarrow> real \<Rightarrow> real \<Rightarrow> real \<Rightarrow> real \<Rightarrow> bool"
  tie_rank :: "nearby_row list \<Rightarrow> nearby_row \<Rightarrow> nat"

text \<open>The rows selected by the \<open>WHERE\<close> clause, each with its reported distance and the
  owner's name from the join.\<close>

definition matching_rows ::
  "geo_store \<Rightarrow> (nat \<rightharpoonup> string) \<Rightarrow> shop_row list \<Rightarrow> real \<Rightarrow> real \<Rightarrow> real \<Rightarrow> nearby_row list" where
  "matching_rows db users shops lat lng radius =
     map (\<lambda>s. \<lparr>shop_of = s,
                 distance = st_distance db (row_latitude s) (row_longitude s) lat lng,
                 owner_name = users (owner_id s)\<rparr>)
       (filter (\<lambda>s. is_approved s \<and> row_status s = Some ''approved'' \<and>
                     st_dwithin db (row_latitude s) (row_longitude s) lat lng radius)
          shops)"

text \<open>\<open>ORDER BY distance\<close>: ascending distance, rows at the same distance by the store's
  rank.\<close>

definition order_by_distance :: "geo_store \<Rightarrow> nearby_row list \<Rightarrow> nearby_row list" where
  "order_by_distance db rows = sort_key distance (sort_key (tie_rank db rows) rows)"

text \<open>
  \<open>Shop.findNearby(lat, lng, radius = 5000, limit = 10)\<close> over the rows of \<open>shops\<close> and
  the users' names by id.
\<close>

definition findNearby ::
  "geo_store \<Rightarrow> (nat \<rightharpoonup> string) \<Rightarrow> shop_row list \<Rightarrow> real \<Rightarrow> real \<Rightarrow> real option \<Rightarrow> nat option
     \<Rightarrow> nearby_row list" where
  "findNearby db users shops lat lng radius_arg limit_arg =
     (let radius = (case radius_arg of None \<Rightarrow> 5000 | Some r \<Rightarrow> r);
          limit = (case limit_arg of None \<Rightarrow> 10 | Some n \<Rightarrow> n)
      in take limit (order_by_distance db (matching_rows db users shops lat lng radius)))"

section \<open>The nearby-shops route (\<open>routes/shop.routes.js\<close>, \<open>controllers/shop.controller.js\<close>)\<close>

text \<open>
  The query string of \<open>GET /api/shops/nearby\<close>. A parameter is \<open>None\<close> when absent and
  otherwise carries the number its text spells: the model covers requests whose
  parameters, when present, are decimal numerals in their shortest spelling (a
  non-empty text, hence truthy; a whole number is written without a fraction, so
  \<open>5.0\<close>, which the integer rule flags, is not among them).
  The validation rules read \<open>lat\<close> and \<open>lng\<close>, the handler \<open>latitude\<close> and \<open>longitude\<close>.
\<close>

record nearby_query =
  q_lat :: "real option"
  q_lng :: "real option"
  q_latitude :: "real option"
  q_longitude :: "real option"
  q_radius :: "real option"
  q_limit :: "real option"

datatype response =
  Status400 string
| Status200 nat "nearby_shop list"

text \<open>
  \<open>nearbyShopsValidation\<close>: the messages the validation chains record for a request.
\<close>

definition nearbyShopsValidation :: "nearby_query \<Rightarrow> string list" where
  "nearbyShopsValidation q =
     (if q_lat q = None then [''Latitude is required''] else []) @
     (if q_lng q = None then [''Longitude is required''] else []) @
     (case q_radius q of
        None \<Rightarrow> []
      | Some r \<Rightarrow> if 0 \<le> r then [] else [''Radius must be a positive number'']) @
     (case q_limit q of
        None \<Rightarrow> []
      | Some l \<Rightarrow> if of_int \<lfloor>l\<rfloor> = l \<and> 1 \<le> l \<and> l \<le> 50 then []
                  else [''Limit must be between 1 and 50''])"

text \<open>
  \<open>getNearbyShops\<close>: \<open>radius = 5\<close> and \<open>limit = 20\<close> when absent; the handler calls
  \<open>findNearbyShops(parseFloat(latitude), parseFloat(longitude), parseFloat(radius),
  parseInt(limit))\<close>, so the limit arrives as the service's fourth parameter.
\<close>

definition getNearbyShops :: "env \<Rightarrow> shop list \<Rightarrow> nearby_query \<Rightarrow> response" where
  "getNearbyShops e store q =
     (let radius = (case q_radius q of None \<Rightarrow> 5 | Some r \<Rightarrow> r);
          limit = (case q_limit q of None \<Rightarrow> 20 | Some l \<Rightarrow> l)
      in case (q_latitude q, q_longitude q) of
           (Some latitude, Some longitude) \<Rightarrow>
             (let shops = findNearbyShops e store (parseFloat latitude) (parseFloat longitude)
                            (Some (parseFloat radius)) (Some (parseInt limit))
              in Status200 (length shops) shops)
         | _ \<Rightarrow> Status400 ''Missing required query parameters: latitude, longitude'')"

text \<open>
  The route runs the validation chains and then the handler. The chains only record
  their findings on the request; the handler does not read them.
\<close>

definition nearby_route :: "env \<Rightarrow> shop list \<Rightarrow> nearby_query \<Rightarrow> response" where
  "nearby_route e store q =
     (let recorded = nearbyShopsValidation q
      in getNearbyShops e store q)"

section \<open>Validators (\<open>utils/validators.js\<close>)\<close>

text \<open>Truthiness of an optional string field: \<open>undefined\<close> and the empty string are falsy.\<close>

definition truthy_str :: "string option \<Rightarrow> bool" where
  "truthy_str v = (case v of None \<Rightarrow> False | Some s \<Rightarrow> s \<noteq> [])"

definition is_digit :: "char \<Rightarrow> bool" where
  "is_digit c = (c \<in> set ''0123456789'')"

text \<open>The white space that \<open>trim\<close> strips, among the characters below 256: tab, line
  feed, vertical tab, form feed, carriage return, space and the no-break space.\<close>

definition is_space :: "char \<Rightarrow> bool" where
  "is_space c =
     (c \<in> {CHR '' '', CHR 0x09, CHR 0x0A, CHR 0x0B, CHR 0x0C, CHR 0x0D, CHR 0xA0})"

definition trim :: "string \<Rightarrow> string" where
  "trim s = rev (dropWhile is_space (rev (dropWhile is_space s)))"

text \<open>\<open>/^\+?[0-9]{10,15}$/\<close>\<close>

definition isValidPhone :: "string \<Rightarrow> bool" where
  "isValidPhone phone =
     (let ds = (case phone of c # rest \<Rightarrow> if c = CHR ''+'' then rest else phone | [] \<Rightarrow> phone)
      in 10 \<le> length ds \<and> length ds \<le> 15 \<and> list_all is_digit ds)"

text \<open>
  The data of a shop to create. A field is \<open>None\<close> when absent; present fields have the
  type the validator tests for (texts are strings, coordinates are numbers), so its
  \<open>typeof\<close> and \<open>isNaN\<close> tests hold of every present field, and \<open>operatingHours\<close>, which
  nothing below reads, is left out.
\<close>

record shop_data =
  d_name :: "string option"
  d_description :: "string option"
  d_address :: "string option"
  d_category :: "string option"
  d_contactPhone :: "string option"
  d_whatsappNumber :: "string option"
  d_bannerImage :: "string option"
  d_latitude :: "real option"
  d_longitude :: "real option"

definition text_of :: "string option \<Rightarrow> string" where
  "text_of v = (case v of None \<Rightarrow> [] | Some s \<Rightarrow> s)"

text \<open>\<open>validateShopData\<close>: the entries of \<open>errors\<close>, in the order they are set; the
  data is valid when there are none.\<close>

definition validateShopData :: "shop_data \<Rightarrow> (string \<times> string) list" where
  "validateShopData shopData =
     (if \<not> truthy_str (d_name shopData) \<or> length (trim (text_of (d_name shopData))) < 3
      then [(''name'', ''Shop name must be at least 3 characters long'')] else []) @
     (if \<not> truthy_str (d_address shopData) \<or> length (trim (text_of (d_address shopData))) < 5
      then [(''address'', ''Shop address must be at least 5 characters long'')] else []) @
     (if \<not> truthy_str (d_contactPhone shopData) \<or> \<not> isValidPhone (text_of (d_contactPhone shopData))
      then [(''contactPhone'', ''Valid contact phone number is required'')] else []) @
     (if \<not> truthy_str (d_category shopData)
      then [(''category'', ''Shop category is required'')] else []) @
     (if d_latitude shopData = None \<or> d_longitude shopData = None
      then [(''location'', ''Valid shop coordinates are required'')] else []) @
     (if truthy_str (d_description shopData) \<and> length (text_of (d_description shopData)) > 500
      then [(''description'', ''Shop description must be a string less than 500 characters'')] else []) @
     (if truthy_str (d_whatsappNumber shopData) \<and> \<not> isValidPhone (text_of (d_whatsappNumber shopData))
      then [(''whatsappNumber'', ''Invalid WhatsApp number format'')] else [])"

text \<open>\<open>JSON.stringify\<close> of the \<open>errors\<close> object (its texts need no escaping).\<close>

fun json_members :: "(string \<times> string) list \<Rightarrow> string" where
  "json_members [] = []"
| "json_members [(k, v)] = [CHR 0x22] @ k @ [CHR 0x22] @ '':'' @ [CHR 0x22] @ v @ [CHR 0x22]"
| "json_members ((k, v) # rest) =
     [CHR 0x22] @ k @ [CHR 0x22] @ '':'' @ [CHR 0x22] @ v @ [CHR 0x22] @ '','' @ json_members rest"

definition JSON_stringify :: "(string \<times> string) list \<Rightarrow> string" where
  "JSON_stringify errors = ''{'' @ json_members errors @ ''}''"

section \<open>Object storage (\<open>services/s3.service.js\<close>)\<close>

definition uploadImage :: "env \<Rightarrow> string \<Rightarrow> string \<Rightarrow> error + string option" where
  "uploadImage e buffer key =
     (if buffer = [] then Inr None
      else case s3_send e buffer key of
             None \<Rightarrow> Inl (Error ''Failed to upload image'')
           | Some url \<Rightarrow> Inr (Some url))"

section \<open>Creating and updating shops in the shop service\<close>

text \<open>
  \<open>createShop(shopData, ownerId)\<close> on the collection \<open>shops\<close>; \<open>new_id\<close> is the identifier
  the store assigns to the saved document. The result is the error thrown, or the
  created shop and the collection after \<open>save\<close>.
\<close>

definition createShop ::
  "env \<Rightarrow> shop list \<Rightarrow> shop_data \<Rightarrow> string \<Rightarrow> nat \<Rightarrow> error + (shop \<times> shop list)" where
  "createShop e shops shopData ownerId new_id =
     (let errors = validateShopData shopData
      in if errors \<noteq> [] then
           Inl (Error (''Failed to create shop: '' @ ''Invalid shop data: '' @ JSON_stringify errors))
         else
           (case find (\<lambda>s. owner s = ownerId) shops of
              Some existingShop \<Rightarrow>
                Inl (Error (''Failed to create shop: '' @ ''User already has a registered shop''))
            | None \<Rightarrow>
                (case (if truthy_str (d_bannerImage shopData)
                       then uploadImage e (text_of (d_bannerImage shopData))
                              (''shops/'' @ ownerId @ ''/banner'')
                       else Inr None) of
                   Inl (Error m) \<Rightarrow> Inl (Error (''Failed to create shop: '' @ m))
                 | Inr bannerUrl \<Rightarrow>
                     (let shop = \<lparr>shop_id = new_id,
                                  owner = ownerId,
                                  name = text_of (d_name shopData),
                                  description = d_description shopData,
                                  address = text_of (d_address shopData),
                                  coordinates = (d_longitude shopData, d_latitude shopData),
                                  category = text_of (d_category shopData),
                                  contactPhone = text_of (d_contactPhone shopData),
                                  whatsappNumber =
                                    (if truthy_str (d_whatsappNumber shopData)
                                     then text_of (d_whatsappNumber shopData)
                                     else text_of (d_contactPhone shopData)),
                                  bannerImage = bannerUrl,
                                  status = ''pending'',
                                  rejectionReason = None\<rparr>
                      in Inr (shop, shops @ [shop])))))"

text \<open>
  The update an owner sends. A field is \<open>None\<close> when the object does not have it.
  \<open>u_location\<close> and \<open>u_status\<close> are the keys \<open>location\<close> and \<open>status\<close>, which
  \<open>updateShop\<close> may add before it writes.
\<close>

record update_data =
  u_name :: "string option"
  u_description :: "string option"
  u_address :: "string option"
  u_category :: "string option"
  u_contactPhone :: "string option"
  u_whatsappNumber :: "string option"
  u_bannerImage :: "string option"
  u_latitude :: "real option"
  u_longitude :: "real option"
  u_location :: "(real option \<times> real option) option"
  u_status :: "string option"

text \<open>\<open>{ $set: updateData }\<close> on one document: the keys present replace the stored
  values (the keys \<open>latitude\<close> and \<open>longitude\<close> are not fields of a shop document).\<close>

definition apply_set :: "update_data \<Rightarrow> shop \<Rightarrow> shop" where
  "apply_set u s =
     s\<lparr>name := (case u_name u of None \<Rightarrow> name s | Some v \<Rightarrow> v),
       description := (case u_description u of None \<Rightarrow> description s | Some v \<Rightarrow> Some v),
       address := (case u_address u of None \<Rightarrow> address s | Some v \<Rightarrow> v),
       coordinates := (case u_location u of None \<Rightarrow> coordinates s | Some c \<Rightarrow> c),
       category := (case u_category u of None \<Rightarrow> category s | Some v \<Rightarrow> v),
       contactPhone := (case u_contactPhone u of None \<Rightarrow> contactPhone s | Some v \<Rightarrow> v),
       whatsappNumber := (case u_whatsappNumber u of None \<Rightarrow> whatsappNumber s | Some v \<Rightarrow> v),
       bannerImage := (case u_bannerImage u of None \<Rightarrow> bannerImage s | Some v \<Rightarrow> Some v),
       status := (case u_status u of None \<Rightarrow> status s | Some v \<Rightarrow> v)\<rparr>"

text \<open>\<open>Shop.findByIdAndUpdate(shopId, { $set: updateData }, { new: true })\<close>: the updated
  document (\<open>None\<close> for \<open>null\<close>) and the collection afterwards.\<close>

fun findByIdAndUpdate :: "shop list \<Rightarrow> nat \<Rightarrow> update_data \<Rightarrow> shop option \<times> shop list" where
  "findByIdAndUpdate [] shopId u = (None, [])"
| "findByIdAndUpdate (s # ss) shopId u =
     (if shop_id s = shopId then (Some (apply_set u s), apply_set u s # ss)
      else (case findByIdAndUpdate ss shopId u of (r, ss') \<Rightarrow> (r, s # ss')))"

text \<open>
  \<open>updateShop(shopId, updateData, ownerId)\<close>, in the order of the source: the lookup and
  the ownership test; the upload of a new banner; the new location when the address is
  given and address or coordinates differ; the return to \<open>pending\<close> when
  \<open>criticalFieldsChanged\<close> holds of an approved shop; the write.
\<close>

definition upload_banner :: "env \<Rightarrow> shop \<Rightarrow> update_data \<Rightarrow> string \<Rightarrow> error + update_data" where
  "upload_banner e shop updateData ownerId =
     (if truthy_str (u_bannerImage updateData) \<and> u_bannerImage updateData \<noteq> bannerImage shop
      then (case uploadImage e (text_of (u_bannerImage updateData))
                   (''shops/'' @ ownerId @ ''/banner'') of
              Inl err \<Rightarrow> Inl err
            | Inr url \<Rightarrow> Inr (updateData\<lparr>u_bannerImage := url\<rparr>))
      else Inr updateData)"

definition set_location :: "shop \<Rightarrow> update_data \<Rightarrow> update_data" where
  "set_location shop updateData =
     (if truthy_str (u_address updateData) \<and>
         (u_address updateData \<noteq> Some (address shop) \<or>
          u_latitude updateData \<noteq> snd (coordinates shop) \<or>
          u_longitude updateData \<noteq> fst (coordinates shop))
      then updateData\<lparr>u_location := Some (u_longitude updateData, u_latitude updateData)\<rparr>
      else updateData)"

definition criticalFieldsChanged :: "shop \<Rightarrow> update_data \<Rightarrow> bool" where
  "criticalFieldsChanged shop updateData =
     (u_name updateData \<noteq> Some (name shop) \<or>
      u_category updateData \<noteq> Some (category shop) \<or>
      u_address updateData \<noteq> Some (address shop))"

definition set_status :: "shop \<Rightarrow> update_data \<Rightarrow> update_data" where
  "set_status shop updateData =
     (if criticalFieldsChanged shop updateData \<and> status shop = ''approved''
      then updateData\<lparr>u_status := Some ''pending''\<rparr>
      else updateData)"

definition updateShop ::
  "env \<Rightarrow> shop list \<Rightarrow> nat \<Rightarrow> update_data \<Rightarrow> string \<Rightarrow> error + (shop option \<times> shop list)" where
  "updateShop e shops shopId updateData ownerId =
     (case find (\<lambda>s. shop_id s = shopId) shops of
        None \<Rightarrow> Inl (Error (''Failed to update shop: '' @ ''Shop not found''))
      | Some shop \<Rightarrow>
          if owner shop \<noteq> ownerId then
            Inl (Error (''Failed to update shop: '' @ ''Unauthorized: You do not own this shop''))
          else
            (case upload_banner e shop updateData ownerId of
               Inl (Error m) \<Rightarrow> Inl (Error (''Failed to update shop: '' @ m))
             | Inr u1 \<Rightarrow>
                 Inr (findByIdAndUpdate shops shopId (set_status shop (set_location shop u1)))))"

section \<open>Reference collaborators and sample data\<close>

text \<open>The decimal text of a natural number, and of an integral number (\<open>String(n)\<close>).\<close>

function nat_text :: "nat \<Rightarrow> string" where
  "nat_text n =
     (if n < 10 then [''0123456789'' ! n]
      else nat_text (n div 10) @ [''0123456789'' ! (n mod 10)])"
  by pat_completeness auto
termination
  by (relation "measure id") auto

definition number_text :: "real \<Rightarrow> string option" where
  "number_text r =
     (if of_int \<lfloor>r\<rfloor> = r
      then Some ((if r < 0 then ''-'' else []) @ nat_text (nat \<bar>\<lfloor>r\<rfloor>\<bar>))
      else None)"


text \<open>
  An instance of the collaborators for running the definitions on concrete data: both
  distances are the repository's own haversine formula, in metres; a filter value
  matches the category it spells (a string itself, a number by its decimal text, as
  when the store casts filter values to the string type of the field); every upload
  succeeds.
\<close>

definition haversine_metres :: dist_fn where
  "haversine_metres lat1 lon1 lat2 lon2 =
     (case haversineDistance lat1 lon1 lat2 lon2 of None \<Rightarrow> 0 | Some km \<Rightarrow> km * 1000)"

definition reference_env :: env where
  "reference_env =
     \<lparr>store_distance = haversine_metres,
      geolib_getDistance = haversine_metres,
      category_eq = (\<lambda>v c. case v of JStr s \<Rightarrow> c = s
                                  | JNum r \<Rightarrow> number_text r = Some c
                                  | _ \<Rightarrow> False),
      s3_send = (\<lambda>buffer key. Some (''https://bucket.s3.region.amazonaws.com/'' @ key @ ''.jpg''))\<rparr>"

text \<open>A shop at latitude 0, longitude 0 with the given identifier, owner and status.\<close>

definition sample_shop :: "nat \<Rightarrow> string \<Rightarrow> string \<Rightarrow> shop" where
  "sample_shop i ownerId st =
     \<lparr>shop_id = i, owner = ownerId, name = ''Corner Store'', description = None,
      address = ''1 Market Street'', coordinates = (Some 0, Some 0), category = ''grocery'',
      contactPhone = ''+15550100000'', whatsappNumber = ''+15550100000'',
      bannerImage = Some ''https://bucket.s3.region.amazonaws.com/old.jpg'',
      status = st, rejectionReason = None\<rparr>"

definition sample_row :: "nat \<Rightarrow> bool \<Rightarrow> string option \<Rightarrow> shop_row" where
  "sample_row i approved st =
     \<lparr>row_id = i, owner_id = i, row_name = ''Corner Store'', banner_url = None,
      row_address = ''1 Market Street'', whatsapp = ''+15550100000'',
      row_longitude = 0, row_latitude = 0, is_approved = approved, row_status = st\<rparr>"

text \<open>\<open>n\<close> approved rows at latitude 0, longitude 0, with identifiers \<open>0, \<dots>, n - 1\<close>.\<close>

definition approved_rows :: "nat \<Rightarrow> shop_row list" where
  "approved_rows n = map (\<lambda>i. sample_row i True (Some ''approved'')) [0..<n]"

text \<open>The place of the first occurrence of an element in a list.\<close>

definition position :: "'a list \<Rightarrow> 'a \<Rightarrow> nat" where
  "position xs x = length (takeWhile (\<lambda>y. y \<noteq> x) xs)"

text \<open>
  Two instances of the relational store, both with the haversine formula as distance
  and as within-distance test. The first returns rows at the same distance in the order
  of the table. The second returns them by ascending identifier when the number of
  matching rows is even and by descending identifier when it is odd.
\<close>

definition reference_store :: geo_store where
  "reference_store =
     \<lparr>st_distance = haversine_metres,
      st_dwithin = (\<lambda>lat1 lon1 lat2 lon2 radius. haversine_metres lat1 lon1 lat2 lon2 \<le> radius),
      tie_rank = position\<rparr>"



definition no_users :: "nat \<rightharpoonup> string" where
  "no_users = Map.empty"

definition row_ids :: "nearby_row list \<Rightarrow> nat list" where
  "row_ids rs = map (\<lambda>r. row_id (shop_of r)) rs"

text \<open>A request at latitude 0, longitude 0 with the given radius and limit parameters.\<close>

definition sample_query :: "real option \<Rightarrow> real option \<Rightarrow> nearby_query" where
  "sample_query r l =
     \<lparr>q_lat = Some 0, q_lng = Some 0, q_latitude = Some 0, q_longitude = Some 0,
      q_radius = r, q_limit = l\<rparr>"

definition sample_data :: shop_data where
  "sample_data =
     \<lparr>d_name = Some ''Corner Store'', d_description = None,
      d_address = Some ''1 Market Street'', d_category = Some ''grocery'',
      d_contactPhone = Some ''+15550100000'', d_whatsappNumber = None,
      d_bannerImage = None, d_latitude = Some 0, d_longitude = Some 0\<rparr>"

text \<open>An update that carries a new banner image and nothing else.\<close>

definition banner_only :: update_data where
  "banner_only =
     \<lparr>u_name = None, u_description = None, u_address = None, u_category = None,
      u_contactPhone = None, u_whatsappNumber = None,
      u_bannerImage = Some ''new-banner'', u_latitude = None, u_longitude = None,
      u_location = None, u_status = None\<rparr>"

section \<open>Lemmas on the geospatial utilities\<close>

lemma haversine_a_self: "haversine_a la lo la lo = 0"
  by (simp add: haversine_a_def)

lemma sin_half_diff_sq:
  fixes x y :: real
  shows "sin ((x - y) / 2) * sin ((x - y) / 2) = sin ((y - x) / 2) * sin ((y - x) / 2)"
proof -
  have "(x - y) / 2 = - ((y - x) / 2)" by argo
  then have "sin ((x - y) / 2) = - sin ((y - x) / 2)" by (metis sin_minus)
  then show ?thesis by simp
qed

lemma haversine_a_sym: "haversine_a la lo la' lo' = haversine_a la' lo' la lo"
  unfolding haversine_a_def Let_def
  using sin_half_diff_sq [of "la' * (pi / 180)" "la * (pi / 180)"]
    sin_half_diff_sq [of "lo' * (pi / 180)" "lo * (pi / 180)"]
  by (simp add: mult.assoc mult.left_commute)

lemma haversineDistance_self: "haversineDistance la lo la lo = Some 0"
  by (simp add: haversineDistance_def haversine_a_self Math_sqrt_def Math_atan2_def)

lemma haversineDistance_sym:
  "haversineDistance la lo la' lo' = haversineDistance la' lo' la lo"
  by (simp add: haversineDistance_def haversine_a_sym [of la lo la' lo'])

text \<open>
  C8. The haversine distance from a coordinate to itself is 0, and the distance from A
  to B equals the distance from B to A.
\<close>

theorem haversineDistance_zero_and_symmetric:
  "haversineDistance latA lonA latA lonA = Some 0 \<and>
   haversineDistance latA lonA latB lonB = haversineDistance latB lonB latA lonA"
  using haversineDistance_self [of latA lonA] haversineDistance_sym [of latA lonA latB lonB]
  by simp

subsection \<open>The bounding box\<close>

lemma bbox_pole:
  assumes "\<not> (latitude * (pi / 180) - r / EARTH_RADIUS > - pi / 2 \<and>
              latitude * (pi / 180) + r / EARTH_RADIUS < pi / 2)"
  shows "minLon (calculateBoundingBox latitude longitude r) = Some (- 180)"
    and "maxLon (calculateBoundingBox latitude longitude r) = Some 180"
    and "minLat (calculateBoundingBox latitude longitude r)
           = max (latitude - (r / EARTH_RADIUS) * (180 / pi)) (- 90)"
    and "maxLat (calculateBoundingBox latitude longitude r)
           = min (latitude + (r / EARTH_RADIUS) * (180 / pi)) 90"
proof -
  let ?b = "calculateBoundingBox latitude longitude r"
  have b: "?b = \<lparr>minLat = max (latitude * (pi / 180) - r / EARTH_RADIUS) (- pi / 2) * (180 / pi),
            maxLat = min (latitude * (pi / 180) + r / EARTH_RADIUS) (pi / 2) * (180 / pi),
            minLon = Some (- pi * (180 / pi)),
            maxLon = Some (pi * (180 / pi))\<rparr>"
    using assms unfolding calculateBoundingBox_def Let_def by (simp only: if_False)
  show "minLon ?b = Some (- 180)" by (simp add: b)
  show "maxLon ?b = Some 180" by (simp add: b)
  have p: "0 < 180 / pi" by simp
  have "max (latitude * (pi / 180) - r / EARTH_RADIUS) (- pi / 2) * (180 / pi)
        = max ((latitude * (pi / 180) - r / EARTH_RADIUS) * (180 / pi)) ((- pi / 2) * (180 / pi))"
    using p by (simp only: max_mult_distrib_right less_imp_le if_True)
  also have "\<dots> = max (latitude - (r / EARTH_RADIUS) * (180 / pi)) (- 90)"
    by (simp add: algebra_simps)
  finally show "minLat ?b = max (latitude - (r / EARTH_RADIUS) * (180 / pi)) (- 90)"
    by (simp add: b)
  have "min (latitude * (pi / 180) + r / EARTH_RADIUS) (pi / 2) * (180 / pi)
        = min ((latitude * (pi / 180) + r / EARTH_RADIUS) * (180 / pi)) ((pi / 2) * (180 / pi))"
    using p by (simp only: min_mult_distrib_right less_imp_le if_True)
  also have "\<dots> = min (latitude + (r / EARTH_RADIUS) * (180 / pi)) 90"
    by (simp add: algebra_simps)
  finally show "maxLat ?b = min (latitude + (r / EARTH_RADIUS) * (180 / pi)) 90"
    by (simp add: b)
qed

text \<open>Away from the poles the ratio handed to the arcsine lies in \<open>[0, 1)\<close>.\<close>

lemma ratio_bounds:
  fixes lat ad :: real
  assumes "- pi / 2 < lat - ad" "lat + ad < pi / 2" "0 \<le> ad"
  shows "0 < cos lat" and "0 \<le> sin ad / cos lat" and "sin ad / cos lat < 1"
proof -
  have l: "- (pi / 2) < lat" "lat < pi / 2" using assms by simp_all
  show c: "0 < cos lat" using l by (simp add: cos_gt_zero_pi)
  have a: "ad < pi / 2" using assms by simp
  have "0 \<le> sin ad" using assms(3) a pi_gt_zero by (intro sin_ge_zero) simp_all
  then show "0 \<le> sin ad / cos lat" using c by simp
  have "sin ad < cos lat"
  proof (cases "0 \<le> lat")
    case True
    have "sin ad < sin (pi / 2 - lat)"
      using assms True l a by (subst sin_mono_less_eq) simp_all
    then show ?thesis by (simp add: sin_diff)
  next
    case False
    have "sin ad < sin (pi / 2 + lat)"
      using assms False l a by (subst sin_mono_less_eq) simp_all
    then show ?thesis by (simp add: sin_add)
  qed
  then show "sin ad / cos lat < 1" using c by simp
qed

lemma bbox_inner:
  assumes inner: "latitude * (pi / 180) - r / EARTH_RADIUS > - pi / 2 \<and>
                  latitude * (pi / 180) + r / EARTH_RADIUS < pi / 2"
    and r: "0 \<le> r"
  shows "\<exists>d. 0 \<le> d \<and> d < 90 \<and>
           minLon (calculateBoundingBox latitude longitude r) =
             Some (if longitude - d < - 180 then longitude - d + 360 else longitude - d) \<and>
           maxLon (calculateBoundingBox latitude longitude r) =
             Some (if longitude + d > 180 then longitude + d - 360 else longitude + d) \<and>
           minLat (calculateBoundingBox latitude longitude r)
             = latitude - (r / EARTH_RADIUS) * (180 / pi) \<and>
           maxLat (calculateBoundingBox latitude longitude r)
             = latitude + (r / EARTH_RADIUS) * (180 / pi)"
proof -
  define lat where "lat = latitude * (pi / 180)"
  define lon where "lon = longitude * (pi / 180)"
  define ad where "ad = r / EARTH_RADIUS"
  define q where "q = sin ad / cos lat"
  define dl where "dl = arcsin q"
  have ad0: "0 \<le> ad" using r by (simp add: ad_def EARTH_RADIUS_def)
  have i: "- pi / 2 < lat - ad" "lat + ad < pi / 2" using inner by (simp_all add: lat_def ad_def)
  note rb = ratio_bounds [OF i ad0]
  have c0: "cos lat \<noteq> 0" using rb(1) by simp
  have q: "0 \<le> q" "q < 1" using rb by (simp_all add: q_def)
  have asin: "Math_asin q = Some dl" using q by (simp add: Math_asin_def dl_def)
  have dl0: "0 \<le> dl" using q by (simp add: dl_def arcsin_nonneg)
  have dl1: "dl < pi / 2" using arcsin_less_arcsin [of q 1] q by (simp add: dl_def)
  let ?b = "calculateBoundingBox latitude longitude r"
  have b: "?b = \<lparr>minLat = (lat - ad) * (180 / pi), maxLat = (lat + ad) * (180 / pi),
                minLon = Some ((if lon - dl < - pi then lon - dl + 2 * pi else lon - dl) * (180 / pi)),
                maxLon = Some ((if lon + dl > pi then lon + dl - 2 * pi else lon + dl) * (180 / pi))\<rparr>"
    using inner c0 asin
    unfolding calculateBoundingBox_def Let_def lat_def [symmetric] lon_def [symmetric]
      ad_def [symmetric] q_def [symmetric]
    by simp
  define d where "d = dl * (180 / pi)"
  have p: "0 < 180 / pi" by simp
  have d0: "0 \<le> d" using dl0 by (simp add: d_def)
  have d1: "d < 90"
  proof -
    have "dl * (180 / pi) < (pi / 2) * (180 / pi)"
      using dl1 p by (simp only: mult_less_cancel_right_pos)
    then show ?thesis by (simp add: d_def)
  qed
  have e1: "(lon - dl) * (180 / pi) = longitude - d" by (simp add: lon_def d_def algebra_simps)
  have e2: "(lon + dl) * (180 / pi) = longitude + d" by (simp add: lon_def d_def algebra_simps)
  have c1: "lon - dl < - pi \<longleftrightarrow> longitude - d < - 180"
  proof -
    have k: "(- pi) * (180 / pi) = - 180" by simp
    have "lon - dl < - pi \<longleftrightarrow> (lon - dl) * (180 / pi) < (- pi) * (180 / pi)"
      using p by (simp only: mult_less_cancel_right_pos)
    then show ?thesis by (simp only: e1 k)
  qed
  have c2: "lon + dl > pi \<longleftrightarrow> longitude + d > 180"
  proof -
    have k: "pi * (180 / pi) = 180" by simp
    have "pi < lon + dl \<longleftrightarrow> pi * (180 / pi) < (lon + dl) * (180 / pi)"
      using p by (simp only: mult_less_cancel_right_pos)
    then show ?thesis by (simp only: e2 k)
  qed
  have t: "2 * pi * (180 / pi) = 360" by simp
  have f1: "(lon - dl + 2 * pi) * (180 / pi) = longitude - d + 360"
    by (simp only: distrib_right e1 t)
  have f2: "(lon + dl - 2 * pi) * (180 / pi) = longitude + d - 360"
    by (simp only: left_diff_distrib e2 t)
  have m1: "minLon ?b = Some (if longitude - d < - 180 then longitude - d + 360 else longitude - d)"
  proof (cases "lon - dl < - pi")
    case True
    then have "minLon ?b = Some ((lon - dl + 2 * pi) * (180 / pi))" by (simp add: b)
    then show ?thesis using True c1 by (simp only: f1 if_True)
  next
    case False
    then have "minLon ?b = Some ((lon - dl) * (180 / pi))" by (simp add: b)
    then show ?thesis using False c1 by (simp only: e1 if_False)
  qed
  have m2: "maxLon ?b = Some (if longitude + d > 180 then longitude + d - 360 else longitude + d)"
  proof (cases "lon + dl > pi")
    case True
    then have "maxLon ?b = Some ((lon + dl - 2 * pi) * (180 / pi))" by (simp add: b)
    then show ?thesis using True c2 by (simp only: f2 if_True)
  next
    case False
    then have "maxLon ?b = Some ((lon + dl) * (180 / pi))" by (simp add: b)
    then show ?thesis using False c2 by (simp only: e2 if_False)
  qed
  have m3: "minLat ?b = latitude - (r / EARTH_RADIUS) * (180 / pi)"
    by (simp add: b lat_def ad_def algebra_simps)
  have m4: "maxLat ?b = latitude + (r / EARTH_RADIUS) * (180 / pi)"
    by (simp add: b lat_def ad_def algebra_simps)
  show ?thesis using d0 d1 m1 m2 m3 m4 by blast
qed

text \<open>
  C9. When the latitude band \<open>[lat - angularDistance, lat + angularDistance]\<close> of the origin
  reaches a pole, \<open>calculateBoundingBox\<close> returns the full longitude range, \<open>minLon = -180\<close>
  and \<open>maxLon = 180\<close>, with the latitudes clamped to \<open>[-90, 90]\<close>. For every other origin
  (and a radius that is not negative) it returns a longitude span of half-width \<open>d < 90\<close>
  degrees centred on the origin's longitude, each end brought back into \<open>[-180, 180]\<close> by
  a full turn where it crosses the antimeridian, between the unclamped latitudes.
\<close>

theorem calculateBoundingBox_pole_and_inner:
  "(latitude * (pi / 180) - radiusInKm / EARTH_RADIUS \<le> - pi / 2 \<or>
    pi / 2 \<le> latitude * (pi / 180) + radiusInKm / EARTH_RADIUS \<longrightarrow>
      minLon (calculateBoundingBox latitude longitude radiusInKm) = Some (- 180) \<and>
      maxLon (calculateBoundingBox latitude longitude radiusInKm) = Some 180 \<and>
      minLat (calculateBoundingBox latitude longitude radiusInKm)
        = max (latitude - (radiusInKm / EARTH_RADIUS) * (180 / pi)) (- 90) \<and>
      maxLat (calculateBoundingBox latitude longitude radiusInKm)
        = min (latitude + (radiusInKm / EARTH_RADIUS) * (180 / pi)) 90 \<and>
      - 90 \<le> minLat (calculateBoundingBox latitude longitude radiusInKm) \<and>
      maxLat (calculateBoundingBox latitude longitude radiusInKm) \<le> 90) \<and>
   (- pi / 2 < latitude * (pi / 180) - radiusInKm / EARTH_RADIUS \<and>
    latitude * (pi / 180) + radiusInKm / EARTH_RADIUS < pi / 2 \<and> 0 \<le> radiusInKm \<longrightarrow>
      (\<exists>d. 0 \<le> d \<and> d < 90 \<and>
         minLon (calculateBoundingBox latitude longitude radiusInKm) =
           Some (if longitude - d < - 180 then longitude - d + 360 else longitude - d) \<and>
         maxLon (calculateBoundingBox latitude longitude radiusInKm) =
           Some (if longitude + d > 180 then longitude + d - 360 else longitude + d) \<and>
         minLat (calculateBoundingBox latitude longitude radiusInKm)
           = latitude - (radiusInKm / EARTH_RADIUS) * (180 / pi) \<and>
         maxLat (calculateBoundingBox latitude longitude radiusInKm)
           = latitude + (radiusInKm / EARTH_RADIUS) * (180 / pi)))"
proof (intro conjI impI)
  assume "latitude * (pi / 180) - radiusInKm / EARTH_RADIUS \<le> - pi / 2 \<or>
          pi / 2 \<le> latitude * (pi / 180) + radiusInKm / EARTH_RADIUS"
  then have n: "\<not> (latitude * (pi / 180) - radiusInKm / EARTH_RADIUS > - pi / 2 \<and>
                   latitude * (pi / 180) + radiusInKm / EARTH_RADIUS < pi / 2)"
    by auto
  note bp = bbox_pole [OF n, of longitude]
  show "minLon (calculateBoundingBox latitude longitude radiusInKm) = Some (- 180)" by (rule bp(1))
  show "maxLon (calculateBoundingBox latitude longitude radiusInKm) = Some 180" by (rule bp(2))
  show "minLat (calculateBoundingBox latitude longitude radiusInKm)
        = max (latitude - (radiusInKm / EARTH_RADIUS) * (180 / pi)) (- 90)" by (rule bp(3))
  show "maxLat (calculateBoundingBox latitude longitude radiusInKm)
        = min (latitude + (radiusInKm / EARTH_RADIUS) * (180 / pi)) 90" by (rule bp(4))
  show "- 90 \<le> minLat (calculateBoundingBox latitude longitude radiusInKm)"
    by (simp only: bp(3) max.cobounded2)
  show "maxLat (calculateBoundingBox latitude longitude radiusInKm) \<le> 90"
    by (simp only: bp(4) min.cobounded2)
next
  assume a: "- pi / 2 < latitude * (pi / 180) - radiusInKm / EARTH_RADIUS \<and>
          latitude * (pi / 180) + radiusInKm / EARTH_RADIUS < pi / 2 \<and> 0 \<le> radiusInKm"
  then have i: "latitude * (pi / 180) - radiusInKm / EARTH_RADIUS > - pi / 2 \<and>
                latitude * (pi / 180) + radiusInKm / EARTH_RADIUS < pi / 2"
    and r: "0 \<le> radiusInKm" by simp_all
  show "\<exists>d. 0 \<le> d \<and> d < 90 \<and>
         minLon (calculateBoundingBox latitude longitude radiusInKm) =
           Some (if longitude - d < - 180 then longitude - d + 360 else longitude - d) \<and>
         maxLon (calculateBoundingBox latitude longitude radiusInKm) =
           Some (if longitude + d > 180 then longitude + d - 360 else longitude + d) \<and>
         minLat (calculateBoundingBox latitude longitude radiusInKm)
           = latitude - (radiusInKm / EARTH_RADIUS) * (180 / pi) \<and>
         maxLat (calculateBoundingBox latitude longitude radiusInKm)
           = latitude + (radiusInKm / EARTH_RADIUS) * (180 / pi)"
    by (rule bbox_inner [OF i r])
qed

text \<open>
  C9, at the north pole with a radius of 10 km, and at latitude 0, longitude 0 with the
  same radius.
\<close>

theorem calculateBoundingBox_pole_and_inner_witness:
  "(90 * (pi / 180) - 10 / EARTH_RADIUS \<le> - pi / 2 \<or>
    pi / 2 \<le> 90 * (pi / 180) + 10 / EARTH_RADIUS) \<and>
   minLon (calculateBoundingBox 90 0 10) = Some (- 180) \<and>
   maxLon (calculateBoundingBox 90 0 10) = Some 180 \<and>
   maxLat (calculateBoundingBox 90 0 10) \<le> 90 \<and>
   (- pi / 2 < 0 * (pi / 180) - 10 / EARTH_RADIUS \<and>
    0 * (pi / 180) + 10 / EARTH_RADIUS < pi / 2 \<and> (0::real) \<le> 10) \<and>
   (\<exists>d. 0 \<le> d \<and> d < 90 \<and>
      minLon (calculateBoundingBox 0 0 10) = Some (if 0 - d < - 180 then 0 - d + 360 else 0 - d) \<and>
      maxLon (calculateBoundingBox 0 0 10) = Some (if 0 + d > 180 then 0 + d - 360 else 0 + d))"
proof -
  have h1: "90 * (pi / 180) - 10 / EARTH_RADIUS \<le> - pi / 2 \<or>
            pi / 2 \<le> 90 * (pi / 180) + 10 / EARTH_RADIUS"
    by (simp add: EARTH_RADIUS_def)
  have "(10::real) / 6371 < 1" by simp
  also have "\<dots> \<le> pi / 2" using pi_ge_two by simp
  finally have s: "(10::real) / 6371 < pi / 2" .
  have h2: "- pi / 2 < 0 * (pi / 180) - 10 / EARTH_RADIUS \<and>
            0 * (pi / 180) + 10 / EARTH_RADIUS < pi / 2 \<and> (0::real) \<le> 10"
    using s by (simp add: EARTH_RADIUS_def)
  note p = calculateBoundingBox_pole_and_inner [of 90 10 0, THEN conjunct1, rule_format, OF h1]
  note q = calculateBoundingBox_pole_and_inner [of 0 10 0, THEN conjunct2, rule_format, OF h2]
  from q obtain d where d: "0 \<le> d" "d < 90"
    "minLon (calculateBoundingBox 0 0 10) = Some (if 0 - d < - 180 then 0 - d + 360 else 0 - d)"
    "maxLon (calculateBoundingBox 0 0 10) = Some (if 0 + d > 180 then 0 + d - 360 else 0 + d)"
    by blast
  show ?thesis using h1 h2 p d by blast
qed

section \<open>The proximity search returns approved shops only\<close>

lemma find_near_status:
  "s \<in> set (find_near e shops la lo m c) \<Longrightarrow> status s = ''approved''"
  by (simp add: find_near_def)

lemma doc_with_distance: "doc (with_distance e la lo s) = s"
  by (simp add: with_distance_def Let_def)

lemma findNearbyShops_status:
  "n \<in> set (findNearbyShops e shops la lo m c) \<Longrightarrow> status (doc n) = ''approved''"
  unfolding findNearbyShops_def Let_def
  by (auto simp add: doc_with_distance dest: find_near_status)

lemma set_order_by_distance: "set (order_by_distance db rows) = set rows"
  by (simp add: order_by_distance_def)

lemma findNearby_row:
  "r \<in> set (findNearby db users rows lat lng radius limit_arg) \<Longrightarrow>
   is_approved (shop_of r) \<and> row_status (shop_of r) = Some ''approved''"
  unfolding findNearby_def Let_def
  by (auto dest!: in_set_takeD simp add: set_order_by_distance matching_rows_def)

text \<open>
  C1. Every shop returned by the proximity search, \<open>findNearbyShops\<close> of the shop service
  as well as \<open>Shop.findNearby\<close> of the relational model, is approved; no shop whose state
  is pending or rejected appears in a result, whatever the query.
\<close>

theorem nearby_results_are_approved:
  "(\<forall>n \<in> set (findNearbyShops e shops latitude longitude maxDistance category_arg).
      status (doc n) = ''approved'' \<and> status (doc n) \<noteq> ''pending'' \<and> status (doc n) \<noteq> ''rejected'') \<and>
   (\<forall>r \<in> set (findNearby db users rows lat lng radius limit_arg).
      is_approved (shop_of r) \<and> row_status (shop_of r) = Some ''approved'' \<and>
      row_status (shop_of r) \<noteq> Some ''pending'' \<and> row_status (shop_of r) \<noteq> Some ''rejected'')"
proof (intro conjI ballI)
  fix n assume "n \<in> set (findNearbyShops e shops latitude longitude maxDistance category_arg)"
  then have a: "status (doc n) = ''approved''" by (rule findNearbyShops_status)
  show "status (doc n) = ''approved''" by (rule a)
  show "status (doc n) \<noteq> ''pending''" by (simp add: a)
  show "status (doc n) \<noteq> ''rejected''" by (simp add: a)
next
  fix r assume "r \<in> set (findNearby db users rows lat lng radius limit_arg)"
  then have a: "is_approved (shop_of r) \<and> row_status (shop_of r) = Some ''approved''"
    by (rule findNearby_row)
  show "is_approved (shop_of r)" using a by simp
  show "row_status (shop_of r) = Some ''approved''" using a by simp
  show "row_status (shop_of r) \<noteq> Some ''pending''" using a by simp
  show "row_status (shop_of r) \<noteq> Some ''rejected''" using a by simp
qed

subsection \<open>The search on sample data\<close>

lemma number_text_20: "number_text 20 = Some ''20''"
  by (simp add: number_text_def)

lemma number_text_1: "number_text 1 = Some ''1''"
  by (simp add: number_text_def)

lemma haversine_metres_self: "haversine_metres la lo la lo = 0"
  by (simp add: haversine_metres_def haversineDistance_self)

text \<open>
  The distance, by the repository's haversine formula, between the points at latitude 0
  with longitudes 0.001 and 0: about 111 metres.
\<close>

lemma haversine_a_east:
  "haversine_a 0 (1 / 1000) 0 0 = sin (pi / 360000) * sin (pi / 360000)"
proof -
  have "sin (- (pi / 360000)) = - sin (pi / 360000)" by (rule sin_minus)
  then show ?thesis by (simp add: haversine_a_def)
qed

lemma haversine_metres_east: "haversine_metres 0 (1 / 1000) 0 0 = 6371 * pi / 180"
proof -
  let ?t = "pi / 360000"
  have t: "0 < ?t" "?t < pi / 2" by simp_all
  have s: "0 < sin ?t" using t by (intro sin_gt_zero) simp_all
  have c: "0 < cos ?t" using t by (intro cos_gt_zero) simp_all
  have sq1: "sqrt (sin ?t * sin ?t) = sin ?t" using s by simp
  have "1 - sin ?t * sin ?t = cos ?t * cos ?t"
    using sin_cos_squared_add [of ?t] by (simp add: power2_eq_square algebra_simps)
  then have sq2: "sqrt (1 - sin ?t * sin ?t) = cos ?t" using c by simp
  have nn: "\<not> sin ?t * sin ?t < 0" "\<not> 1 - sin ?t * sin ?t < 0"
    using sq2 c \<open>1 - sin ?t * sin ?t = cos ?t * cos ?t\<close> by (simp_all add: not_less)
  have at: "Math_atan2 (sin ?t) (cos ?t) = ?t"
  proof -
    have "arctan (sin ?t / cos ?t) = arctan (tan ?t)" by (simp add: tan_def)
    also have "\<dots> = ?t" using t by (intro arctan_tan) simp_all
    finally show ?thesis using c by (simp add: Math_atan2_def)
  qed
  have "haversineDistance 0 (1 / 1000) 0 0 = Some (EARTH_RADIUS * (2 * ?t))"
    unfolding haversineDistance_def Let_def haversine_a_east Math_sqrt_def
    using nn sq1 sq2 at by simp
  then show ?thesis by (simp add: haversine_metres_def EARTH_RADIUS_def)
qed

lemma east_between: "5 < 6371 * pi / 180" "6371 * pi / 180 \<le> 5000"
  using pi_ge_two pi_less_4 by simp_all

lemma reference_env_fields:
  "store_distance reference_env = haversine_metres"
  "geolib_getDistance reference_env = haversine_metres"
  "category_eq reference_env v c =
     (case v of JStr s \<Rightarrow> c = s | JNum r \<Rightarrow> number_text r = Some c | _ \<Rightarrow> False)"
  by (simp_all add: reference_env_def)

lemma sample_near:
  "find_near reference_env [sample_shop 11 ''u1'' ''approved'', sample_shop 12 ''u2'' ''pending''] 0 0 m None
   = (if 0 \<le> m then [sample_shop 11 ''u1'' ''approved''] else [])"
  by (simp add: find_near_def has_point_def shop_distance_def sample_shop_def reference_env_fields
      haversine_metres_self)


lemma sample_nearby:
  "findNearbyShops reference_env [sample_shop 11 ''u1'' ''approved'', sample_shop 12 ''u2'' ''pending''] 0 0 None None
   = [\<lparr>doc = sample_shop 11 ''u1'' ''approved'', meters = 0, kilometers = 0\<rparr>]"
proof -
  have "with_distance reference_env 0 0 (sample_shop 11 ''u1'' ''approved'')
        = \<lparr>doc = sample_shop 11 ''u1'' ''approved'', meters = 0, kilometers = 0\<rparr>"
    by (simp add: with_distance_def calculateDistance_def reference_env_fields
        haversine_metres_self Math_round_def toFixed1_def sample_shop_def)
  then show ?thesis by (simp add: findNearbyShops_def sample_near)
qed

lemma reference_store_fields:
  "st_distance reference_store = haversine_metres"
  "st_dwithin reference_store lat1 lon1 lat2 lon2 radius
     = (haversine_metres lat1 lon1 lat2 lon2 \<le> radius)"
  "tie_rank reference_store = position"
  by (simp_all add: reference_store_def)

lemma sample_rows:
  "findNearby reference_store Map.empty
     [sample_row 11 True (Some ''approved''), sample_row 12 False (Some ''pending'')] 0 0 None None
   = [\<lparr>shop_of = sample_row 11 True (Some ''approved''), distance = 0, owner_name = None\<rparr>]"
  by (simp add: findNearby_def matching_rows_def order_by_distance_def reference_store_fields
      sample_row_def haversine_metres_self)

text \<open>
  C1, on sample data: of an approved and a pending shop at the query point, the search
  returns the approved one.
\<close>

theorem nearby_results_are_approved_witness:
  "\<lparr>doc = sample_shop 11 ''u1'' ''approved'', meters = 0, kilometers = 0\<rparr>
     \<in> set (findNearbyShops reference_env
          [sample_shop 11 ''u1'' ''approved'', sample_shop 12 ''u2'' ''pending''] 0 0 None None) \<and>
   status (doc \<lparr>doc = sample_shop 11 ''u1'' ''approved'', meters = 0, kilometers = 0\<rparr>) = ''approved'' \<and>
   \<lparr>shop_of = sample_row 11 True (Some ''approved''), distance = 0, owner_name = None\<rparr>
     \<in> set (findNearby reference_store Map.empty
          [sample_row 11 True (Some ''approved''), sample_row 12 False (Some ''pending'')] 0 0 None None) \<and>
   row_status (shop_of \<lparr>shop_of = sample_row 11 True (Some ''approved''), distance = 0,
                         owner_name = None\<rparr>) = Some ''approved''"
proof -
  let ?n = "\<lparr>doc = sample_shop 11 ''u1'' ''approved'', meters = 0, kilometers = 0\<rparr>"
  let ?r = "\<lparr>shop_of = sample_row 11 True (Some ''approved''), distance = 0, owner_name = None\<rparr>"
  let ?shops = "[sample_shop 11 ''u1'' ''approved'', sample_shop 12 ''u2'' ''pending'']"
  let ?rows = "[sample_row 11 True (Some ''approved''), sample_row 12 False (Some ''pending'')]"
  note t = nearby_results_are_approved [of reference_env ?shops 0 0 None None
      reference_store Map.empty ?rows 0 0 None None]
  have m1: "?n \<in> set (findNearbyShops reference_env ?shops 0 0 None None)"
    by (simp add: sample_nearby)
  have m2: "?r \<in> set (findNearby reference_store Map.empty ?rows 0 0 None None)"
    by (simp add: sample_rows)
  have s1: "status (doc ?n) = ''approved''"
    using t m1 by blast
  have s2: "row_status (shop_of ?r) = Some ''approved''"
    using t m2 by blast
  show ?thesis using m1 m2 s1 s2 by blast
qed

section \<open>The size of a result\<close>

text \<open>
  \<open>Shop.findNearby\<close> returns at most \<open>limit\<close> rows, at most 10 when no limit is given; it
  applies no ceiling of its own: of 51 approved shops at the query point, a limit of
  1000 returns all.
\<close>

lemma findNearby_length_le_limit:
  "length (findNearby db users rows lat lng radius (Some n)) \<le> n \<and>
   length (findNearby db users rows lat lng radius None) \<le> 10"
  by (simp add: findNearby_def)

lemma findNearby_no_ceiling:
  "length (findNearby reference_store no_users (approved_rows 51) 0 0 (Some 5000) (Some 1000)) = 51"
proof -
  have "\<forall>s \<in> set (approved_rows 51). is_approved s \<and> row_status s = Some ''approved'' \<and>
          st_dwithin reference_store (row_latitude s) (row_longitude s) 0 0 5000"
    by (auto simp add: approved_rows_def sample_row_def reference_store_fields
        haversine_metres_self)
  then have "filter (\<lambda>s. is_approved s \<and> row_status s = Some ''approved'' \<and>
                 st_dwithin reference_store (row_latitude s) (row_longitude s) 0 0 5000)
               (approved_rows 51) = approved_rows 51"
    by (simp only: filter_True)
  then have "length (matching_rows reference_store no_users (approved_rows 51) 0 0 5000) = 51"
    by (simp add: matching_rows_def) (simp add: approved_rows_def)
  then show ?thesis
    by (simp add: findNearby_def order_by_distance_def)
qed

lemma with_distance_sample:
  "with_distance reference_env 0 0 ((sample_shop i ownerId st)\<lparr>category := c\<rparr>)
   = \<lparr>doc = (sample_shop i ownerId st)\<lparr>category := c\<rparr>, meters = 0, kilometers = 0\<rparr>"
  by (simp add: with_distance_def calculateDistance_def reference_env_fields
      haversine_metres_self Math_round_def toFixed1_def sample_shop_def)

lemma find_near_category_1:
  "find_near reference_env
     [(sample_shop 11 ''u1'' ''approved'')\<lparr>category := ''1''\<rparr>,
      (sample_shop 12 ''u2'' ''approved'')\<lparr>category := ''1''\<rparr>] 0 0 5000 (Some (JNum 1))
   = [(sample_shop 11 ''u1'' ''approved'')\<lparr>category := ''1''\<rparr>,
      (sample_shop 12 ''u2'' ''approved'')\<lparr>category := ''1''\<rparr>]"
  by (simp add: find_near_def has_point_def shop_distance_def sample_shop_def reference_env_fields
      haversine_metres_self number_text_1)

text \<open>
  C4, at the input where the code departs from it. The claim: a nearby-shops query with
  requested limit \<open>n\<close> returns at most \<open>n\<close> shops and at most 50, the limit being applied
  as a bound on the number of results. The route handler passes the limit as the fourth
  argument of \<open>findNearbyShops\<close>, which is the category; the service filters by it and
  returns every match, whatever their number. With two approved shops of category ``1''
  at the query point, the request with limit 1 is answered with both.
\<close>

theorem limit_used_as_category_filter:
  "getNearbyShops e store
     \<lparr>q_lat = a, q_lng = b, q_latitude = Some la, q_longitude = Some lo,
      q_radius = Some r, q_limit = Some n\<rparr>
   = Status200
       (length (find_near e store la lo r (if truthy (parseInt n) then Some (parseInt n) else None)))
       (map (with_distance e la lo)
          (find_near e store la lo r (if truthy (parseInt n) then Some (parseInt n) else None))) \<and>
   getNearbyShops reference_env
     [(sample_shop 11 ''u1'' ''approved'')\<lparr>category := ''1''\<rparr>,
      (sample_shop 12 ''u2'' ''approved'')\<lparr>category := ''1''\<rparr>]
     (sample_query (Some 5000) (Some 1))
   = Status200 2
       [\<lparr>doc = (sample_shop 11 ''u1'' ''approved'')\<lparr>category := ''1''\<rparr>, meters = 0, kilometers = 0\<rparr>,
        \<lparr>doc = (sample_shop 12 ''u2'' ''approved'')\<lparr>category := ''1''\<rparr>, meters = 0, kilometers = 0\<rparr>]"
proof -
  have g: "getNearbyShops e store
     \<lparr>q_lat = a, q_lng = b, q_latitude = Some la, q_longitude = Some lo,
      q_radius = Some r, q_limit = Some n\<rparr>
   = Status200
       (length (find_near e store la lo r (if truthy (parseInt n) then Some (parseInt n) else None)))
       (map (with_distance e la lo)
          (find_near e store la lo r (if truthy (parseInt n) then Some (parseInt n) else None)))"
    for e store a b la lo r n
    by (simp add: getNearbyShops_def parseFloat_def Let_def findNearbyShops_def)
  have p: "parseInt 1 = JNum 1" by (simp add: parseInt_def)
  have "getNearbyShops reference_env
     [(sample_shop 11 ''u1'' ''approved'')\<lparr>category := ''1''\<rparr>,
      (sample_shop 12 ''u2'' ''approved'')\<lparr>category := ''1''\<rparr>]
     (sample_query (Some 5000) (Some 1))
   = Status200 2
       [\<lparr>doc = (sample_shop 11 ''u1'' ''approved'')\<lparr>category := ''1''\<rparr>, meters = 0, kilometers = 0\<rparr>,
        \<lparr>doc = (sample_shop 12 ''u2'' ''approved'')\<lparr>category := ''1''\<rparr>, meters = 0, kilometers = 0\<rparr>]"
    unfolding sample_query_def
    by (simp add: g p find_near_category_1 with_distance_sample)
  then show ?thesis using g by blast
qed

section \<open>Enlarging the radius\<close>


















section \<open>The order of a result\<close>

lemma find_near_sorted:
  "sorted (map (shop_distance e la lo) (find_near e shops la lo m c))"
  unfolding find_near_def by (rule sorted_sort_key)

lemma findNearbyShops_sorted:
  "sorted (map (\<lambda>n. shop_distance e la lo (doc n)) (findNearbyShops e shops la lo m c))"
proof -
  have "(\<lambda>n. shop_distance e la lo (doc n)) \<circ> with_distance e la lo = shop_distance e la lo"
    by (rule ext) (simp add: doc_with_distance)
  then show ?thesis
    unfolding findNearbyShops_def Let_def by (simp add: find_near_sorted)
qed

lemma findNearby_sorted:
  "sorted (map distance (findNearby db users rows lat lng radius limit_arg))"
  unfolding findNearby_def Let_def order_by_distance_def
  by (simp flip: take_map)

text \<open>
  C6, as the code has it: the result of \<open>Shop.findNearby\<close> is in non-decreasing order of
  the distance it reports, and the result of \<open>findNearbyShops\<close> is in non-decreasing order
  of the store's distance from the query point. Nothing orders results at equal distance
  by identity.
\<close>

theorem nearby_sorted_by_distance:
  "sorted (map distance (findNearby db users rows lat lng radius limit_arg)) \<and>
   sorted (map (\<lambda>n. shop_distance e latitude longitude (doc n))
             (findNearbyShops e shops latitude longitude maxDistance category_arg))"
  using findNearby_sorted findNearbyShops_sorted by blast

text \<open>
  C6 as stated fails: two approved shops at the same distance, stored with identifier 12
  before identifier 11, are returned in that order by a store that keeps the order of
  the table among rows at the same distance.
\<close>

theorem equal_distance_order_counterexample:
  "row_ids (findNearby reference_store no_users
      [sample_row 12 True (Some ''approved''), sample_row 11 True (Some ''approved'')]
      0 0 (Some 5000) (Some 10)) = [12, 11] \<and>
   map distance (findNearby reference_store no_users
      [sample_row 12 True (Some ''approved''), sample_row 11 True (Some ''approved'')]
      0 0 (Some 5000) (Some 10)) = [0, 0]"
  by (simp add: findNearby_def matching_rows_def order_by_distance_def reference_store_fields
      position_def row_ids_def sample_row_def haversine_metres_self)

section \<open>The default radius\<close>

text \<open>
  C3, as the code has it. The claim asks for a default radius of 5000 metres at every
  layer. The service and the relational model default to 5000, but the route handler
  defaults the absent \<open>radius\<close> to 5 and hands it to the service as \<open>maxDistance\<close>, which
  the store reads in metres. With the service called directly, an approved shop about
  111 metres from the query point is found under the service's default and is not found
  with the handler's value.
\<close>

theorem absent_radius_defaults:
  "getNearbyShops e store
     \<lparr>q_lat = a, q_lng = b, q_latitude = Some la, q_longitude = Some lo,
      q_radius = None, q_limit = l\<rparr>
   = Status200
       (length (findNearbyShops e store la lo (Some 5)
                  (Some (parseInt (case l of None \<Rightarrow> 20 | Some x \<Rightarrow> x)))))
       (findNearbyShops e store la lo (Some 5)
          (Some (parseInt (case l of None \<Rightarrow> 20 | Some x \<Rightarrow> x)))) \<and>
   findNearbyShops e store la lo None c = findNearbyShops e store la lo (Some 5000) c \<and>
   findNearby db users rows lat lng None limit_arg
     = findNearby db users rows lat lng (Some 5000) limit_arg \<and>
   findNearbyShops reference_env [sample_shop 11 ''u1'' ''approved''] 0 (1 / 1000) (Some 5) None = [] \<and>
   length (findNearbyShops reference_env [sample_shop 11 ''u1'' ''approved''] 0 (1 / 1000) None None) = 1"
proof -
  have "findNearbyShops reference_env [sample_shop 11 ''u1'' ''approved''] 0 (1 / 1000) (Some 5) None = [] \<and>
    length (findNearbyShops reference_env [sample_shop 11 ''u1'' ''approved''] 0 (1 / 1000) None None) = 1"
    using east_between
    by (simp add: findNearbyShops_def find_near_def has_point_def shop_distance_def
        reference_env_fields sample_shop_def haversine_metres_east)
  then show ?thesis
    by (simp add: getNearbyShops_def parseFloat_def Let_def findNearbyShops_def findNearby_def)
qed

section \<open>Validation of the nearby-shops request\<close>

lemma find_near_no_match:
  "find_near reference_env [sample_shop 11 ''u1'' ''approved''] 0 0 m (Some (JNum 20)) = []"
  by (simp add: find_near_def reference_env_fields sample_shop_def number_text_20)

text \<open>
  The validation rules record ``Radius must be a positive number'' for a negative radius
  and ``Limit must be between 1 and 50'' for a limit above 50.
\<close>

lemma validation_flags_radius_and_limit:
  "(q_radius q = Some r \<and> r < 0 \<longrightarrow>
      ''Radius must be a positive number'' \<in> set (nearbyShopsValidation q)) \<and>
   (q_limit q = Some l \<and> 50 < l \<longrightarrow>
      ''Limit must be between 1 and 50'' \<in> set (nearbyShopsValidation q))"
  by (simp add: nearbyShopsValidation_def)

text \<open>
  C5, at the input where the code departs from it. The claim: a request with radius 0 is
  rejected with status 400, a request with a negative radius is rejected, and a limit of
  1000 is clamped to 50. The radius rule is \<open>isFloat({ min: 0 })\<close> beside the message
  ``Radius must be a positive number'', so radius 0 passes it; and whatever the rules
  record, the route answers as the handler alone does, which never reads the findings.
  A request with radius 0 is answered with status 200 and the result of the search at
  \<open>maxDistance\<close> 0; for radius -1 and for limit 1000 a finding is recorded and has no
  effect.
\<close>

theorem radius_zero_is_served:
  "nearby_route e store q = getNearbyShops e store q \<and>
   nearbyShopsValidation
     \<lparr>q_lat = Some a, q_lng = Some b, q_latitude = Some la, q_longitude = Some lo,
      q_radius = Some 0, q_limit = None\<rparr> = [] \<and>
   nearby_route e store
     \<lparr>q_lat = Some a, q_lng = Some b, q_latitude = Some la, q_longitude = Some lo,
      q_radius = Some 0, q_limit = l\<rparr>
   = Status200
       (length (findNearbyShops e store la lo (Some 0)
                  (Some (parseInt (case l of None \<Rightarrow> 20 | Some x \<Rightarrow> x)))))
       (findNearbyShops e store la lo (Some 0)
          (Some (parseInt (case l of None \<Rightarrow> 20 | Some x \<Rightarrow> x)))) \<and>
   nearby_route reference_env [sample_shop 11 ''u1'' ''approved''] (sample_query (Some 0) None)
     = Status200 0 [] \<and>
   nearbyShopsValidation (sample_query (Some (- 1)) None)
     = [''Radius must be a positive number''] \<and>
   nearbyShopsValidation (sample_query (Some 5000) (Some 1000))
     = [''Limit must be between 1 and 50'']"
proof (intro conjI)
  show "nearby_route e store q = getNearbyShops e store q"
    by (simp add: nearby_route_def Let_def)
  show "nearbyShopsValidation
     \<lparr>q_lat = Some a, q_lng = Some b, q_latitude = Some la, q_longitude = Some lo,
      q_radius = Some 0, q_limit = None\<rparr> = []"
    by (simp add: nearbyShopsValidation_def)
  show "nearby_route e store
     \<lparr>q_lat = Some a, q_lng = Some b, q_latitude = Some la, q_longitude = Some lo,
      q_radius = Some 0, q_limit = l\<rparr>
   = Status200
       (length (findNearbyShops e store la lo (Some 0)
                  (Some (parseInt (case l of None \<Rightarrow> 20 | Some x \<Rightarrow> x)))))
       (findNearbyShops e store la lo (Some 0)
          (Some (parseInt (case l of None \<Rightarrow> 20 | Some x \<Rightarrow> x))))"
    by (simp add: nearby_route_def getNearbyShops_def parseFloat_def Let_def)
  show "nearby_route reference_env [sample_shop 11 ''u1'' ''approved''] (sample_query (Some 0) None)
     = Status200 0 []"
    by (simp add: nearby_route_def getNearbyShops_def sample_query_def
        parseFloat_def parseInt_def findNearbyShops_def find_near_no_match)
  show "nearbyShopsValidation (sample_query (Some (- 1)) None)
     = [''Radius must be a positive number'']"
    by (simp add: nearbyShopsValidation_def sample_query_def)
  show "nearbyShopsValidation (sample_query (Some 5000) (Some 1000))
     = [''Limit must be between 1 and 50'']"
    by (simp add: nearbyShopsValidation_def sample_query_def)
qed

section \<open>Editing a shop\<close>

lemma findByIdAndUpdate_found:
  "find (\<lambda>s. shop_id s = i) shops = Some shop \<Longrightarrow>
   fst (findByIdAndUpdate shops i u) = Some (apply_set u shop)"
  by (induction shops) (auto split: prod.splits)

lemma status_apply_set:
  "status (apply_set u s) = (case u_status u of None \<Rightarrow> status s | Some v \<Rightarrow> v)"
  by (simp add: apply_set_def)

lemma upload_banner_fields:
  assumes "upload_banner e shop u ownerId = Inr u1"
  shows "u_name u1 = u_name u" "u_category u1 = u_category u" "u_address u1 = u_address u"
    "u_status u1 = u_status u"
  using assms by (auto simp add: upload_banner_def split: if_splits sum.splits)

lemma set_location_fields:
  "u_name (set_location shop u) = u_name u"
  "u_category (set_location shop u) = u_category u"
  "u_address (set_location shop u) = u_address u"
  "u_status (set_location shop u) = u_status u"
  by (simp_all add: set_location_def)

lemma u_status_set_status:
  "u_status (set_status shop u) =
     (if criticalFieldsChanged shop u \<and> status shop = ''approved'' then Some ''pending''
      else u_status u)"
  by (simp add: set_status_def)

lemma updateShop_result:
  assumes f: "find (\<lambda>s. shop_id s = i) shops = Some shop"
    and r: "updateShop e shops i u ownerId = Inr (Some s', shops')"
  shows "\<exists>u1. upload_banner e shop u ownerId = Inr u1 \<and>
              s' = apply_set (set_status shop (set_location shop u1)) shop"
proof -
  have o: "owner shop = ownerId"
    using r f by (auto simp add: updateShop_def split: if_splits)
  obtain u1 where u1: "upload_banner e shop u ownerId = Inr u1"
    using r f o by (cases "upload_banner e shop u ownerId") (auto simp add: updateShop_def split: error.splits)
  have "fst (findByIdAndUpdate shops i (set_status shop (set_location shop u1)))
          = Some (apply_set (set_status shop (set_location shop u1)) shop)"
    by (rule findByIdAndUpdate_found [OF f])
  moreover have "updateShop e shops i u ownerId
          = Inr (findByIdAndUpdate shops i (set_status shop (set_location shop u1)))"
    using f o u1 by (simp add: updateShop_def)
  ultimately have "s' = apply_set (set_status shop (set_location shop u1)) shop"
    using r by (metis Inr_inject fst_conv option.inject)
  then show ?thesis using u1 by blast
qed

lemma critical_edit_reverts_to_pending:
  assumes f: "find (\<lambda>s. shop_id s = i) shops = Some shop"
    and a: "status shop = ''approved''"
    and c: "u_name u \<noteq> Some (name shop) \<or> u_category u \<noteq> Some (category shop) \<or>
            u_address u \<noteq> Some (address shop)"
    and r: "updateShop e shops i u ownerId = Inr (Some s', shops')"
  shows "status s' = ''pending''"
proof -
  obtain u1 where u1: "upload_banner e shop u ownerId = Inr u1"
    and s': "s' = apply_set (set_status shop (set_location shop u1)) shop"
    using updateShop_result [OF f r] by blast
  have "criticalFieldsChanged shop (set_location shop u1)"
    using c by (simp add: criticalFieldsChanged_def set_location_fields upload_banner_fields [OF u1])
  then show ?thesis
    using a by (simp add: s' status_apply_set u_status_set_status)
qed

lemma unchanged_critical_fields_keep_status:
  assumes f: "find (\<lambda>s. shop_id s = i) shops = Some shop"
    and c: "u_name u = Some (name shop)" "u_category u = Some (category shop)"
           "u_address u = Some (address shop)"
    and n: "u_status u = None"
    and r: "updateShop e shops i u ownerId = Inr (Some s', shops')"
  shows "status s' = status shop"
proof -
  obtain u1 where u1: "upload_banner e shop u ownerId = Inr u1"
    and s': "s' = apply_set (set_status shop (set_location shop u1)) shop"
    using updateShop_result [OF f r] by blast
  have "\<not> criticalFieldsChanged shop (set_location shop u1)"
    using c by (simp add: criticalFieldsChanged_def set_location_fields upload_banner_fields [OF u1])
  then show ?thesis
    using n by (simp add: s' status_apply_set u_status_set_status set_location_fields
        upload_banner_fields [OF u1])
qed

text \<open>
  C2, at the input where the code departs from it. The claim: an edit of an approved shop
  that changes name, category or address returns it to pending (lemma
  \<open>critical_edit_reverts_to_pending\<close>), and an edit that changes only the banner image
  leaves it approved. The code compares each critical field of the update with the stored
  one by \<open>!==\<close>, so a field the update does not carry counts as changed: an update with
  the banner image alone returns the approved shop to pending. (The state is kept when
  the update repeats the stored name, category and address, lemma
  \<open>unchanged_critical_fields_keep_status\<close>.)
\<close>

theorem banner_only_edit_reverts_to_pending:
  "updateShop reference_env [sample_shop 11 ''u1'' ''approved''] 11 banner_only ''u1''
   = Inr (Some ((sample_shop 11 ''u1'' ''pending'')
                  \<lparr>bannerImage := Some ''https://bucket.s3.region.amazonaws.com/shops/u1/banner.jpg''\<rparr>),
          [(sample_shop 11 ''u1'' ''pending'')
                  \<lparr>bannerImage := Some ''https://bucket.s3.region.amazonaws.com/shops/u1/banner.jpg''\<rparr>])"
  by (simp add: updateShop_def upload_banner_def set_location_def set_status_def
      criticalFieldsChanged_def sample_shop_def banner_only_def truthy_str_def uploadImage_def
      reference_env_def text_of_def apply_set_def)

section \<open>Creating a shop\<close>

lemma find_owner_Some:
  "ownerId \<in> set (map owner shops) \<Longrightarrow> \<exists>s. find (\<lambda>s. owner s = ownerId) shops = Some s"
  by (induction shops) auto

lemma find_owner_None:
  "find (\<lambda>s. owner s = ownerId) shops = None \<Longrightarrow> ownerId \<notin> set (map owner shops)"
  by (induction shops) (auto split: if_splits)

lemma createShop_existing_owner:
  assumes "ownerId \<in> set (map owner shops)"
  shows "\<exists>m. createShop e shops shopData ownerId new_id = Inl (Error m)"
    and "validateShopData shopData = [] \<Longrightarrow>
         createShop e shops shopData ownerId new_id
           = Inl (Error ''Failed to create shop: User already has a registered shop'')"
proof -
  obtain s where s: "find (\<lambda>s. owner s = ownerId) shops = Some s"
    using find_owner_Some [OF assms] by blast
  show "\<exists>m. createShop e shops shopData ownerId new_id = Inl (Error m)"
    using s by (simp add: createShop_def Let_def)
  show "validateShopData shopData = [] \<Longrightarrow>
         createShop e shops shopData ownerId new_id
           = Inl (Error ''Failed to create shop: User already has a registered shop'')"
    using s by (simp add: createShop_def Let_def)
qed

lemma createShop_success:
  assumes "createShop e shops shopData ownerId new_id = Inr (shop, shops')"
  shows "ownerId \<notin> set (map owner shops) \<and> owner shop = ownerId \<and> shops' = shops @ [shop] \<and>
         status shop = ''pending''"
proof -
  have v: "validateShopData shopData = []"
    using assms by (auto simp add: createShop_def Let_def split: if_splits)
  have n: "find (\<lambda>s. owner s = ownerId) shops = None"
    using assms v by (auto simp add: createShop_def Let_def split: option.splits)
  have "owner shop = ownerId \<and> shops' = shops @ [shop] \<and> status shop = ''pending''"
    using assms v n
    by (auto simp add: createShop_def Let_def split: sum.splits error.splits if_splits)
  then show ?thesis using find_owner_None [OF n] by simp
qed

text \<open>
  C10. For a user who already owns a shop, \<open>createShop\<close> returns an error and stores
  nothing; when the submitted data is valid the error is ``User already has a registered
  shop'' (under the prefix the service puts before every error of \<open>createShop\<close>). Hence
  a collection in which every owner has at most one shop stays so after any successful
  \<open>createShop\<close>.
\<close>

theorem createShop_one_shop_per_owner:
  "(ownerId \<in> set (map owner shops) \<longrightarrow>
      (\<exists>m. createShop e shops shopData ownerId new_id = Inl (Error m)) \<and>
      (validateShopData shopData = [] \<longrightarrow>
         createShop e shops shopData ownerId new_id
           = Inl (Error ''Failed to create shop: User already has a registered shop''))) \<and>
   (distinct (map owner shops) \<longrightarrow>
      (\<forall>shop shops'. createShop e shops shopData ownerId new_id = Inr (shop, shops') \<longrightarrow>
         distinct (map owner shops')))"
proof (intro conjI impI allI)
  assume "ownerId \<in> set (map owner shops)"
  then show "\<exists>m. createShop e shops shopData ownerId new_id = Inl (Error m)"
    by (rule createShop_existing_owner(1))
next
  assume "ownerId \<in> set (map owner shops)" and "validateShopData shopData = []"
  then show "createShop e shops shopData ownerId new_id
           = Inl (Error ''Failed to create shop: User already has a registered shop'')"
    by (rule createShop_existing_owner(2))
next
  fix shop shops'
  assume d: "distinct (map owner shops)"
    and r: "createShop e shops shopData ownerId new_id = Inr (shop, shops')"
  show "distinct (map owner shops')"
    using createShop_success [OF r] d by auto
qed

subsection \<open>Creating a shop on sample data\<close>

lemma sample_data_valid: "validateShopData sample_data = []"
  by (simp add: validateShopData_def sample_data_def truthy_str_def text_of_def trim_def
      is_space_def isValidPhone_def is_digit_def)

lemma sample_created:
  "createShop reference_env [sample_shop 11 ''u1'' ''approved''] sample_data ''u2'' 12
   = Inr ((sample_shop 12 ''u2'' ''pending'')\<lparr>bannerImage := None\<rparr>,
          [sample_shop 11 ''u1'' ''approved'',
           (sample_shop 12 ''u2'' ''pending'')\<lparr>bannerImage := None\<rparr>])"
  using sample_data_valid
  by (simp add: createShop_def Let_def)
     (simp add: sample_data_def sample_shop_def truthy_str_def text_of_def)

text \<open>
  C10, on sample data: the owner of the stored shop is refused, another user's shop is
  created.
\<close>

theorem createShop_one_shop_per_owner_witness:
  "''u1'' \<in> set (map owner [sample_shop 11 ''u1'' ''approved'']) \<and>
   validateShopData sample_data = [] \<and>
   createShop reference_env [sample_shop 11 ''u1'' ''approved''] sample_data ''u1'' 12
     = Inl (Error ''Failed to create shop: User already has a registered shop'') \<and>
   distinct (map owner [sample_shop 11 ''u1'' ''approved'']) \<and>
   createShop reference_env [sample_shop 11 ''u1'' ''approved''] sample_data ''u2'' 12
     = Inr ((sample_shop 12 ''u2'' ''pending'')\<lparr>bannerImage := None\<rparr>,
            [sample_shop 11 ''u1'' ''approved'',
             (sample_shop 12 ''u2'' ''pending'')\<lparr>bannerImage := None\<rparr>]) \<and>
   distinct (map owner [sample_shop 11 ''u1'' ''approved'',
                        (sample_shop 12 ''u2'' ''pending'')\<lparr>bannerImage := None\<rparr>])"
proof -
  let ?shops = "[sample_shop 11 ''u1'' ''approved'']"
  have h1: "''u1'' \<in> set (map owner ?shops)" by (simp add: sample_shop_def)
  have h2: "distinct (map owner ?shops)" by simp
  note t1 = createShop_one_shop_per_owner [of "''u1''" ?shops reference_env sample_data 12]
  note t2 = createShop_one_shop_per_owner [of "''u2''" ?shops reference_env sample_data 12]
  have r1: "createShop reference_env ?shops sample_data ''u1'' 12
     = Inl (Error ''Failed to create shop: User already has a registered shop'')"
    using t1 h1 sample_data_valid by blast
  have r2: "distinct (map owner [sample_shop 11 ''u1'' ''approved'',
                        (sample_shop 12 ''u2'' ''pending'')\<lparr>bannerImage := None\<rparr>])"
    using t2 h2 sample_created by blast
  show ?thesis using h1 h2 r1 r2 sample_data_valid sample_created by blast
qed


end
